theory Spec2Isabelle
  imports Complex_Main "HOL-Library.Sublist"
begin

section \<open>Partner compatibility and radar layout (RadarMatching.tsx)\<close>

text \<open>
  A shallow embedding of the scoring, ranking and layout code of
  \<^verbatim>\<open>src/components/matching/RadarMatching.tsx\<close>.

  Conventions of the embedding.
  \<^item> A field that the code guards with \<^verbatim>\<open>?.\<close> or that a stored user record may lack is an
    \<open>option\<close>; \<open>None\<close> is JavaScript's \<^verbatim>\<open>undefined\<close>, and \<^verbatim>\<open>===\<close> on such fields is
    equality of options (\<^verbatim>\<open>undefined === undefined\<close> holds).
  \<^item> The scorer only divides, multiplies and adds small numbers; its numbers are modelled
    as exact rationals (\<open>rat\<close>).
  \<^item> The layout is modelled twice. The first model computes in exact real arithmetic; it
    carries the result on the collision-avoidance loop, whose proof does not depend on the
    arithmetic. The second model rounds every operation to a double; it carries the
    results on a single repulsion.
  \<^item> Strings are \<open>string\<close>; \<^verbatim>\<open>toLowerCase\<close> maps the letters A to Z to a to z.
\<close>

subsection \<open>Data\<close>

text \<open>The value stored under \<^verbatim>\<open>users/<key>\<close>, as far as the code reads it. The field
  \<open>stored_id\<close> is the \<^verbatim>\<open>id\<close> property of the stored value, if it has one.\<close>

record UserData =
  stored_id :: "string option"
  name :: "string option"
  studyField :: "string option"
  subjects :: "string list option"
  university :: "string option"
  faculty :: "string option"
  location_field :: "string option"
  city :: "string option"
  country :: "string option"
  yearOfStudy :: "rat option"

text \<open>\<^verbatim>\<open>interface UserProfile\<close>: the stored fields, the identifier, and the four optional
  score fields that \<^verbatim>\<open>startRadarScan\<close> fills in (\<^verbatim>\<open>avatar\<close> and \<^verbatim>\<open>position\<close> are display
  data and left out).\<close>

record UserProfile = UserData +
  id_field :: string
  smartCompatibility :: "int option"
  subjectMatch :: "int option"
  institutionMatch :: "int option"
  locationMatch :: "int option"

text \<open>The object \<^verbatim>\<open>{ id: key, ...user }\<close>. The spread comes after \<^verbatim>\<open>id\<close>, so an
  \<^verbatim>\<open>id\<close> property of the stored value replaces the key. The score fields are written by
  \<^verbatim>\<open>startRadarScan\<close> before anything reads them.\<close>

definition withId :: "string \<Rightarrow> UserData \<Rightarrow> UserProfile" where
  "withId k u =
     UserData.extend u
       (UserProfile.fields (case stored_id u of None \<Rightarrow> k | Some i \<Rightarrow> i) None None None None)"

text \<open>The object returned by \<^verbatim>\<open>calculateSmartCompatibility\<close>.\<close>

record Compatibility =
  total :: int
  subject :: int
  institution :: int
  location :: int

subsection \<open>Strings\<close>

definition toLowerChar :: "char \<Rightarrow> char" where
  "toLowerChar c =
     (let n = (of_char c :: nat) in if 65 \<le> n \<and> n \<le> 90 then char_of (n + 32) else c)"

definition toLowerCase :: "string \<Rightarrow> string" where
  "toLowerCase s = map toLowerChar s"

text \<open>\<^verbatim>\<open>s.includes(t)\<close>: \<open>t\<close> occurs in \<open>s\<close> as a contiguous block; the empty string occurs in
  every string.\<close>

fun includes_str :: "string \<Rightarrow> string \<Rightarrow> bool" where
  "includes_str [] t = (t = [])"
| "includes_str (c # s) t = (prefix t (c # s) \<or> includes_str s t)"

subsection \<open>The scorer\<close>

text \<open>\<^verbatim>\<open>Math.round\<close> rounds to the nearest integer, a half towards plus infinity.\<close>

definition Math_round :: "rat \<Rightarrow> int" where
  "Math_round v = \<lfloor>v + 1 / 2\<rfloor>"

text \<open>The predicate of the inner \<^verbatim>\<open>some\<close>.\<close>

definition subjectsOverlap :: "string \<Rightarrow> string \<Rightarrow> bool" where
  "subjectsOverlap userSubject subj \<longleftrightarrow>
     includes_str (toLowerCase userSubject) (toLowerCase subj) \<or>
     includes_str (toLowerCase subj) (toLowerCase userSubject)"

text \<open>\<^verbatim>\<open>currentUserProfile.subjects?.some(...)\<close>: \<^verbatim>\<open>undefined\<close>, which is falsy, when the
  requester has no subject list.\<close>

definition someOverlap :: "string list option \<Rightarrow> string \<Rightarrow> bool" where
  "someOverlap us subj =
     (case us of None \<Rightarrow> False | Some l \<Rightarrow> list_ex (\<lambda>userSubject. subjectsOverlap userSubject subj) l)"

text \<open>\<^verbatim>\<open>partner.subjects?.filter(...) || []\<close>.\<close>

definition commonSubjects :: "UserProfile \<Rightarrow> UserProfile \<Rightarrow> string list" where
  "commonSubjects cur partner =
     (case subjects partner of
        None \<Rightarrow> []
      | Some ps \<Rightarrow> filter (someOverlap (subjects cur)) ps)"

text \<open>\<^verbatim>\<open>subjects?.length || 1\<close>: 1 for an absent and for an empty list.\<close>

definition lengthOr1 :: "string list option \<Rightarrow> nat" where
  "lengthOr1 s = (case s of None \<Rightarrow> 1 | Some l \<Rightarrow> if length l = 0 then 1 else length l)"

definition subjectScore :: "UserProfile \<Rightarrow> UserProfile \<Rightarrow> rat" where
  "subjectScore cur partner =
     (of_nat (length (commonSubjects cur partner)) /
      of_nat (max (lengthOr1 (subjects partner)) (lengthOr1 (subjects cur)))) * 100"

definition institutionScore :: "UserProfile \<Rightarrow> UserProfile \<Rightarrow> rat" where
  "institutionScore cur partner =
     (if university partner = university cur
      then (if faculty partner = faculty cur then 100 else 100)
      else 60)"

definition locationScore :: "UserProfile \<Rightarrow> UserProfile \<Rightarrow> rat" where
  "locationScore cur partner =
     (if city partner = city cur then 100
      else if country partner = country cur then 70
      else 30)"

text \<open>A missing year makes the difference \<^verbatim>\<open>NaN\<close>, and \<^verbatim>\<open>NaN <= 1\<close> is false.\<close>

definition yearBonus :: "UserProfile \<Rightarrow> UserProfile \<Rightarrow> rat" where
  "yearBonus cur partner =
     (case (yearOfStudy partner, yearOfStudy cur) of
        (Some p, Some c) \<Rightarrow> if \<bar>p - c\<bar> \<le> 1 then 10 else 0
      | _ \<Rightarrow> 0)"

definition totalScore :: "UserProfile \<Rightarrow> UserProfile \<Rightarrow> rat" where
  "totalScore cur partner =
     subjectScore cur partner * (4 / 10) + institutionScore cur partner * (3 / 10) +
     locationScore cur partner * (2 / 10) + yearBonus cur partner"

definition calculateSmartCompatibility :: "UserProfile option \<Rightarrow> UserProfile \<Rightarrow> Compatibility" where
  "calculateSmartCompatibility currentUserProfile partner =
     (case currentUserProfile of
        None \<Rightarrow> \<lparr>total = 0, subject = 0, institution = 0, location = 0\<rparr>
      | Some cur \<Rightarrow>
          \<lparr>total = Math_round (totalScore cur partner),
           subject = Math_round (subjectScore cur partner),
           institution = Math_round (institutionScore cur partner),
           location = Math_round (locationScore cur partner)\<rparr>)"

text \<open>The profiles of the spec's first scenario.\<close>

definition scenarioData :: "string list \<Rightarrow> UserData" where
  "scenarioData subjs =
     \<lparr>stored_id = None, name = None, studyField = Some ''Mathematics'',
      subjects = Some subjs, university = Some ''A'', faculty = None, location_field = None, city = Some ''X'', country = Some ''C1'',
      yearOfStudy = Some 2\<rparr>"

definition scenarioRequester :: UserProfile where
  "scenarioRequester = withId ''r'' (scenarioData [''Calculus'', ''Physics''])"

definition scenarioCandidate :: UserProfile where
  "scenarioCandidate = withId ''c'' (scenarioData [''Calculus II''])"

definition chemistryCandidate :: UserProfile where
  "chemistryCandidate = withId ''d'' (scenarioData [''Chemistry''])"

text \<open>A stored record with every field absent, and two profiles made from it.\<close>

definition emptyData :: UserData where
  "emptyData =
     \<lparr>stored_id = None, name = None, studyField = None, subjects = None, university = None,
      faculty = None, location_field = None, city = None, country = None, yearOfStudy = None\<rparr>"

definition emptyRequester :: UserProfile where
  "emptyRequester = withId ''r'' emptyData"

definition emptyCandidate :: UserProfile where
  "emptyCandidate = withId ''c'' emptyData"

subsection \<open>Ranking\<close>

text \<open>\<^verbatim>\<open>fetchPotentialPartners\<close>. The second argument is the outcome of the database read:
  \<open>None\<close> when the read throws or the snapshot does not exist, otherwise the children that
  the query for the requester's study field returns, key and stored value, in the order
  \<^verbatim>\<open>forEach\<close> visits them. For a requester without a study field, \<^verbatim>\<open>equalTo(undefined)\<close>
  throws inside the \<^verbatim>\<open>try\<close> and the \<^verbatim>\<open>catch\<close> returns the empty list.\<close>

definition fetchPotentialPartners ::
    "UserProfile option \<Rightarrow> (string \<times> UserData) list option \<Rightarrow> UserProfile list" where
  "fetchPotentialPartners currentUserProfile snapshot =
     (case currentUserProfile of
        None \<Rightarrow> []
      | Some cur \<Rightarrow>
          (case studyField cur of
             None \<Rightarrow> []
           | Some field \<Rightarrow>
               (case snapshot of
                  None \<Rightarrow> []
                | Some children \<Rightarrow>
                    map (\<lambda>(key, user). withId key user)
                      (filter (\<lambda>(key, user). key \<noteq> id_field cur) children))))"

text \<open>\<^verbatim>\<open>v || 0\<close> on an optional number.\<close>

definition orZero :: "int option \<Rightarrow> int" where
  "orZero v = (case v of None \<Rightarrow> 0 | Some n \<Rightarrow> n)"

text \<open>\<^verbatim>\<open>Array.prototype.sort\<close> with a comparator: the sort is stable, and an element goes
  before another when the comparator is negative. Insertion from the right keeps an element
  in front of the later elements it compares equal to.\<close>

fun insort_cmp :: "('a \<Rightarrow> 'a \<Rightarrow> int) \<Rightarrow> 'a \<Rightarrow> 'a list \<Rightarrow> 'a list" where
  "insort_cmp cmp x [] = [x]"
| "insort_cmp cmp x (y # ys) =
     (if cmp x y \<le> 0 then x # y # ys else y # insort_cmp cmp x ys)"

definition sort_cmp :: "('a \<Rightarrow> 'a \<Rightarrow> int) \<Rightarrow> 'a list \<Rightarrow> 'a list" where
  "sort_cmp cmp xs = foldr (insort_cmp cmp) xs []"

text \<open>The comparator of \<^verbatim>\<open>startRadarScan\<close>.\<close>

definition byCompatibility :: "UserProfile \<Rightarrow> UserProfile \<Rightarrow> int" where
  "byCompatibility a b = orZero (smartCompatibility b) - orZero (smartCompatibility a)"

text \<open>The callback of the \<^verbatim>\<open>map\<close>: the partner with its four score fields filled in.\<close>

definition withScores :: "UserProfile option \<Rightarrow> UserProfile \<Rightarrow> UserProfile" where
  "withScores currentUserProfile partner =
     (let compatibility = calculateSmartCompatibility currentUserProfile partner
      in partner\<lparr>smartCompatibility := Some (total compatibility),
                 subjectMatch := Some (subject compatibility),
                 institutionMatch := Some (institution compatibility),
                 locationMatch := Some (location compatibility)\<rparr>)"

text \<open>\<^verbatim>\<open>potentialPartners.map(...).sort(...).slice(0, 6)\<close>.\<close>

definition smartMatches :: "UserProfile option \<Rightarrow> UserProfile list \<Rightarrow> UserProfile list" where
  "smartMatches currentUserProfile potentialPartners =
     take 6 (sort_cmp byCompatibility (map (withScores currentUserProfile) potentialPartners))"

text \<open>The component state that the scan reads and writes.\<close>

record RadarState =
  currentUserProfile :: "UserProfile option"
  matchedPartners :: "UserProfile list"

text \<open>\<^verbatim>\<open>startRadarScan\<close>, once the progress timer has reached 100: nothing happens without a
  requester profile, otherwise the matches replace \<^verbatim>\<open>matchedPartners\<close>.\<close>

definition startRadarScan :: "RadarState \<Rightarrow> (string \<times> UserData) list option \<Rightarrow> RadarState" where
  "startRadarScan st snapshot =
     (case currentUserProfile st of
        None \<Rightarrow> st
      | Some cur \<Rightarrow>
          st\<lparr>matchedPartners :=
               smartMatches (Some cur) (fetchPotentialPartners (Some cur) snapshot)\<rparr>)"

text \<open>The summary list below the radar: \<^verbatim>\<open>matchedPartners.slice(0, 4)\<close>.\<close>

definition summaryMatches :: "RadarState \<Rightarrow> UserProfile list" where
  "summaryMatches st = take 4 (matchedPartners st)"

text \<open>A state with the scenario's requester, and a query result for it, in the order of the
  keys: it contains the requester's own record and two candidates of equal total.\<close>

definition scenarioState :: RadarState where
  "scenarioState = \<lparr>currentUserProfile = Some scenarioRequester, matchedPartners = []\<rparr>"

definition scenarioPool :: "(string \<times> UserData) list" where
  "scenarioPool =
     [(''c'', scenarioData [''Calculus II'']),
      (''d'', scenarioData [''Chemistry'']),
      (''e'', scenarioData [''Physics'']),
      (''r'', scenarioData [''Calculus'', ''Physics''])]"

text \<open>A query result with the requester's own record and seven candidates.\<close>

definition sevenPool :: "(string \<times> UserData) list" where
  "sevenPool =
     (''r'', scenarioData [''Calculus'', ''Physics'']) #
     map (\<lambda>k. (k, scenarioData [''Algebra'']))
       [''u1'', ''u2'', ''u3'', ''u4'', ''u5'', ''u6'', ''u7'']"

text \<open>A query result with the requester's own record and, under another key, a record whose
  stored \<^verbatim>\<open>id\<close> is the requester's identifier.\<close>

definition overridePool :: "(string \<times> UserData) list" where
  "overridePool =
     [(''r'', scenarioData [''Calculus'', ''Physics'']),
      (''x'', (scenarioData [''Physics''])\<lparr>stored_id := Some ''r''\<rparr>)]"

subsection \<open>Radar layout\<close>

definition getCompatibilityRing :: "int \<Rightarrow> nat" where
  "getCompatibilityRing compatibility =
     (if compatibility \<ge> 90 then 0
      else if compatibility \<ge> 80 then 1
      else 2)"

text \<open>\<^verbatim>\<open>ring === 0 ? 0.25 : ring === 1 ? 0.4 : 0.6\<close>.\<close>

definition ringRadius :: "nat \<Rightarrow> real" where
  "ringRadius ring = (if ring = 0 then 25 / 100 else if ring = 1 then 4 / 10 else 6 / 10)"

text \<open>An entry of the position list.\<close>

record Position =
  pos_id :: string
  pos_x :: real
  pos_y :: real

definition MARGIN :: real where
  "MARGIN = 10"

definition MAX_ITERATIONS :: nat where
  "MAX_ITERATIONS = 50"

text \<open>\<^verbatim>\<open>Math.atan2(y, x)\<close> on real numbers: the angle of the point \<open>(x, y)\<close> in the interval
  from \<open>- pi\<close> to \<open>pi\<close>, and 0 at the origin.\<close>

definition Math_atan2 :: "real \<Rightarrow> real \<Rightarrow> real" where
  "Math_atan2 b a =
     (if 0 < a then arctan (b / a)
      else if a < 0 then (if 0 \<le> b then arctan (b / a) + pi else arctan (b / a) - pi)
      else if 0 < b then pi / 2
      else if b < 0 then - (pi / 2)
      else 0)"

text \<open>The distance that the inner loop computes for two entries.\<close>

definition distance :: "Position \<Rightarrow> Position \<Rightarrow> real" where
  "distance p q =
     (let dx = pos_x p - pos_x q; dy = pos_y p - pos_y q in sqrt (dx * dx + dy * dy))"

text \<open>The body of the inner loop for the pair \<open>(j, k)\<close>, on the array and the flag
  \<^verbatim>\<open>hasCollision\<close>; the four assignments are made one after the other.\<close>

definition repel :: "nat \<Rightarrow> nat \<Rightarrow> Position list \<times> bool \<Rightarrow> Position list \<times> bool" where
  "repel j k st =
     (let positions = fst st;
          dx = pos_x (positions ! j) - pos_x (positions ! k);
          dy = pos_y (positions ! j) - pos_y (positions ! k);
          dist = sqrt (dx * dx + dy * dy)
      in if dist < MARGIN then
           (let angle = Math_atan2 dy dx;
                force = (MARGIN - dist) / 2;
                p1 = positions[j := (positions ! j)\<lparr>pos_x := pos_x (positions ! j) + cos angle * force\<rparr>];
                p2 = p1[j := (p1 ! j)\<lparr>pos_y := pos_y (p1 ! j) + sin angle * force\<rparr>];
                p3 = p2[k := (p2 ! k)\<lparr>pos_x := pos_x (p2 ! k) - cos angle * force\<rparr>];
                p4 = p3[k := (p3 ! k)\<lparr>pos_y := pos_y (p3 ! k) - sin angle * force\<rparr>]
            in (p4, True))
         else st)"

text \<open>The loop over \<open>k\<close> from \<open>j + 1\<close>, and one pass: the loop over \<open>j\<close> that starts with the
  flag cleared.\<close>

definition innerLoop :: "nat \<Rightarrow> Position list \<times> bool \<Rightarrow> Position list \<times> bool" where
  "innerLoop j st = fold (repel j) [Suc j..<length (fst st)] st"

definition pass :: "Position list \<Rightarrow> Position list \<times> bool" where
  "pass positions = fold innerLoop [0..<length positions] (positions, False)"

text \<open>The loop over \<open>i\<close>. The result is the array, the number of passes made and whether the
  loop was left by \<^verbatim>\<open>break\<close>.\<close>

function adjustLoop :: "nat \<Rightarrow> Position list \<Rightarrow> Position list \<times> nat \<times> bool" where
  "adjustLoop i positions =
     (if i < MAX_ITERATIONS then
        (case pass positions of
           (positions', hasCollision) \<Rightarrow>
             if \<not> hasCollision then (positions', Suc i, True)
             else adjustLoop (Suc i) positions')
      else (positions, i, False))"
  by pat_completeness auto
termination
  by (relation "measure (\<lambda>(i, positions). MAX_ITERATIONS - i)") auto

definition adjustPositions :: "Position list \<Rightarrow> Position list" where
  "adjustPositions positions = fst (adjustLoop 0 positions)"

text \<open>The callback of the \<^verbatim>\<open>map\<close> in \<^verbatim>\<open>calculateRadarPositions\<close>; \<open>n\<close> is
  \<^verbatim>\<open>matchedPartners.length\<close>.\<close>

definition initialPosition :: "real \<Rightarrow> real \<Rightarrow> nat \<Rightarrow> nat \<Rightarrow> UserProfile \<Rightarrow> Position" where
  "initialPosition centerX centerY n index partner =
     (let ring = getCompatibilityRing (orZero (smartCompatibility partner));
          radius = ringRadius ring;
          angle = (real index * 360) / real n;
          radian = (angle * pi) / 180
      in \<lparr>pos_id = id_field partner,
          pos_x = centerX + (radius * centerX) * cos radian,
          pos_y = centerY + (radius * centerY) * sin radian\<rparr>)"

text \<open>\<^verbatim>\<open>calculateRadarPositions\<close>; the first argument is the client width and height of the
  radar container, \<open>None\<close> while the container is not mounted.\<close>

definition calculateRadarPositions :: "(int \<times> int) option \<Rightarrow> UserProfile list \<Rightarrow> Position list" where
  "calculateRadarPositions container partners =
     (case container of
        None \<Rightarrow> []
      | Some (containerWidth, containerHeight) \<Rightarrow>
          (let centerX = real_of_int containerWidth / 2;
               centerY = real_of_int containerHeight / 2;
               positions = map (\<lambda>(index, partner).
                   initialPosition centerX centerY (length partners) index partner)
                 (enumerate 0 partners)
           in adjustPositions positions))"

text \<open>Two entries that collide and where one pass leaves them, two that coincide, and two
  that are apart.\<close>

definition closePair :: "Position list" where
  "closePair = [\<lparr>pos_id = ''a'', pos_x = 0, pos_y = 0\<rparr>, \<lparr>pos_id = ''b'', pos_x = 6, pos_y = 0\<rparr>]"


definition samePair :: "Position list" where
  "samePair = [\<lparr>pos_id = ''a'', pos_x = 3, pos_y = 4\<rparr>, \<lparr>pos_id = ''b'', pos_x = 3, pos_y = 4\<rparr>]"


subsection \<open>Radar layout in double arithmetic\<close>










section \<open>Properties\<close>

subsection \<open>Helper facts\<close>

lemma withId_sel:
  "id_field (withId k u) = (case stored_id u of None \<Rightarrow> k | Some i \<Rightarrow> i)"
  "studyField (withId k u) = studyField u"
  "subjects (withId k u) = subjects u"
  "university (withId k u) = university u"
  "faculty (withId k u) = faculty u"
  "city (withId k u) = city u"
  "country (withId k u) = country u"
  "yearOfStudy (withId k u) = yearOfStudy u"
  "smartCompatibility (withId k u) = None"
  by (simp_all add: withId_def UserData.defs UserProfile.defs)

lemma Math_round_of_int: "Math_round (of_int k) = k"
proof -
  have "\<lfloor>(of_int k :: rat) + 1 / 2\<rfloor> = k"
    by (rule floor_unique) simp_all
  then show ?thesis by (simp add: Math_round_def)
qed

lemma Math_round_numeral: "Math_round (numeral n) = numeral n"
  using Math_round_of_int [of "numeral n"] by simp

lemma Math_round_zero: "Math_round 0 = 0"
  using Math_round_of_int [of 0] by simp

lemma scenario_common:
  "commonSubjects scenarioRequester scenarioCandidate = [''Calculus II'']"
  by (simp add: commonSubjects_def someOverlap_def subjectsOverlap_def toLowerCase_def
      toLowerChar_def scenarioRequester_def scenarioCandidate_def scenarioData_def withId_sel)

lemma scenario_subjectScore: "subjectScore scenarioRequester scenarioCandidate = 50"
  unfolding subjectScore_def scenario_common
  by (simp add: lengthOr1_def scenarioRequester_def scenarioCandidate_def scenarioData_def
      withId_sel)

lemma scenario_institutionScore: "institutionScore scenarioRequester scenarioCandidate = 100"
  by (simp add: institutionScore_def scenarioRequester_def scenarioCandidate_def
      scenarioData_def withId_sel)

lemma scenario_locationScore: "locationScore scenarioRequester scenarioCandidate = 100"
  by (simp add: locationScore_def scenarioRequester_def scenarioCandidate_def
      scenarioData_def withId_sel)

lemma scenario_yearBonus: "yearBonus scenarioRequester scenarioCandidate = 10"
  by (simp add: yearBonus_def scenarioRequester_def scenarioCandidate_def
      scenarioData_def withId_sel)

lemma scenario_totalScore: "totalScore scenarioRequester scenarioCandidate = 80"
  by (simp add: totalScore_def scenario_subjectScore scenario_institutionScore
      scenario_locationScore scenario_yearBonus)

subsection \<open>C1: the first concrete scenario\<close>

text \<open>
  C1 states that for the requester with subjects Calculus and Physics and the candidate with
  the single subject Calculus II, otherwise equal in university, city, country and year, the
  scorer returns subjectScore 100 and total 110. The code divides the one common subject by
  the longer of the two subject lists, which has two entries: the returned subject score is
  not 100 and the returned total is not 110.
\<close>

theorem C1_scenario_counterexample:
  "\<not> (subject (calculateSmartCompatibility (Some scenarioRequester) scenarioCandidate) = 100 \<and>
      institution (calculateSmartCompatibility (Some scenarioRequester) scenarioCandidate) = 100 \<and>
      location (calculateSmartCompatibility (Some scenarioRequester) scenarioCandidate) = 100 \<and>
      yearBonus scenarioRequester scenarioCandidate = 10 \<and>
      total (calculateSmartCompatibility (Some scenarioRequester) scenarioCandidate) = 110) \<and>
   subject (calculateSmartCompatibility (Some scenarioRequester) scenarioCandidate) \<noteq> 100 \<and>
   total (calculateSmartCompatibility (Some scenarioRequester) scenarioCandidate) \<noteq> 110"
  by (simp add: calculateSmartCompatibility_def scenario_subjectScore scenario_totalScore
      Math_round_numeral)

text \<open>
  C1 as amended: in that scenario the scorer returns subjectScore 50 (one common subject out
  of a longest list of two), institutionScore 100, locationScore 100, a year bonus of 10,
  and total \<open>50 * 0.4 + 100 * 0.3 + 100 * 0.2 + 10 = 80\<close>.
\<close>

theorem C1_scenario_amended:
  "subjectScore scenarioRequester scenarioCandidate = 50 \<and>
   calculateSmartCompatibility (Some scenarioRequester) scenarioCandidate =
     \<lparr>total = 80, subject = 50, institution = 100, location = 100\<rparr> \<and>
   yearBonus scenarioRequester scenarioCandidate = 10"
  by (simp add: calculateSmartCompatibility_def Math_round_numeral scenario_subjectScore
      scenario_institutionScore scenario_locationScore scenario_yearBonus scenario_totalScore)

subsection \<open>Facts about the scorer\<close>

lemma Math_round_mono: "a \<le> b \<Longrightarrow> Math_round a \<le> Math_round b"
  by (simp add: Math_round_def floor_mono)

lemma lengthOr1_pos: "0 < lengthOr1 s"
  by (simp add: lengthOr1_def split: option.splits)

lemma commonSubjects_le: "length (commonSubjects cur partner) \<le> lengthOr1 (subjects partner)"
proof (cases "subjects partner")
  case None
  then show ?thesis by (simp add: commonSubjects_def)
next
  case (Some ps)
  have "length (filter (someOverlap (subjects cur)) ps) \<le> length ps"
    by (rule length_filter_le)
  also have "length ps \<le> lengthOr1 (Some ps)"
    by (simp add: lengthOr1_def)
  finally show ?thesis using Some by (simp add: commonSubjects_def)
qed

lemma times_100_le: "q \<le> 1 \<Longrightarrow> q * 100 \<le> (100::rat)"
  by simp

lemma subjectScore_nonneg: "0 \<le> subjectScore cur partner"
  by (simp add: subjectScore_def)

lemma subjectScore_le: "subjectScore cur partner \<le> 100"
proof -
  let ?c = "length (commonSubjects cur partner)"
  let ?m = "max (lengthOr1 (subjects partner)) (lengthOr1 (subjects cur))"
  have cm: "?c \<le> ?m" using commonSubjects_le [of cur partner] by simp
  have mpos: "0 < ?m" using lengthOr1_pos [of "subjects partner"] by simp
  have "(of_nat ?c :: rat) \<le> of_nat ?m" using cm by (simp only: of_nat_le_iff)
  moreover have "(0::rat) < of_nat ?m" using mpos by (simp only: of_nat_0_less_iff)
  ultimately have "(of_nat ?c :: rat) / of_nat ?m \<le> 1"
    by (simp add: divide_le_eq)
  then show ?thesis unfolding subjectScore_def by (rule times_100_le)
qed

lemma yearBonus_cases: "yearBonus cur partner = 0 \<or> yearBonus cur partner = 10"
  by (simp add: yearBonus_def split: option.splits)

lemma totalScore_nonneg: "0 \<le> totalScore cur partner"
proof -
  have "0 \<le> subjectScore cur partner * (4 / 10)"
    using subjectScore_nonneg [of cur partner] by simp
  moreover have "0 \<le> institutionScore cur partner * (3 / 10)"
    by (simp add: institutionScore_def)
  moreover have "0 \<le> locationScore cur partner * (2 / 10)"
    by (simp add: locationScore_def)
  moreover have "0 \<le> yearBonus cur partner"
    using yearBonus_cases [of cur partner] by auto
  ultimately show ?thesis unfolding totalScore_def by linarith
qed

lemma totalScore_le: "totalScore cur partner \<le> 100"
proof -
  have "subjectScore cur partner * (4 / 10) \<le> 40"
    using subjectScore_le [of cur partner] by simp
  moreover have "institutionScore cur partner * (3 / 10) \<le> 30"
    by (simp add: institutionScore_def)
  moreover have "locationScore cur partner * (2 / 10) \<le> 20"
    by (simp add: locationScore_def)
  moreover have "yearBonus cur partner \<le> 10"
    using yearBonus_cases [of cur partner] by auto
  ultimately show ?thesis unfolding totalScore_def by linarith
qed

lemma Math_round_range:
  assumes "0 \<le> v" and "v \<le> numeral n"
  shows "0 \<le> Math_round v \<and> Math_round v \<le> numeral n"
  using Math_round_mono [OF assms(1)] Math_round_mono [OF assms(2)]
  by (simp add: Math_round_zero Math_round_numeral)

subsection \<open>C9: score ranges\<close>

text \<open>
  C9: for every requester (present or absent) and every candidate, the returned subject,
  institution and location scores lie between 0 and 100 and the returned total lies between
  0 and 110. The unrounded sub-scores and the unrounded total obey the same bounds. The
  weights 0.4, 0.3 and 0.2 add up to 0.9, so the total in fact never exceeds
  \<open>40 + 30 + 20 + 10 = 100\<close>.
\<close>

theorem C9_score_range:
  "0 \<le> subject (calculateSmartCompatibility c partner) \<and>
   subject (calculateSmartCompatibility c partner) \<le> 100 \<and>
   0 \<le> institution (calculateSmartCompatibility c partner) \<and>
   institution (calculateSmartCompatibility c partner) \<le> 100 \<and>
   0 \<le> location (calculateSmartCompatibility c partner) \<and>
   location (calculateSmartCompatibility c partner) \<le> 100 \<and>
   0 \<le> total (calculateSmartCompatibility c partner) \<and>
   total (calculateSmartCompatibility c partner) \<le> 110 \<and>
   0 \<le> subjectScore cur partner \<and> subjectScore cur partner \<le> 100 \<and>
   0 \<le> institutionScore cur partner \<and> institutionScore cur partner \<le> 100 \<and>
   0 \<le> locationScore cur partner \<and> locationScore cur partner \<le> 100 \<and>
   0 \<le> totalScore cur partner \<and> totalScore cur partner \<le> 110 \<and>
   total (calculateSmartCompatibility c partner) \<le> 100 \<and> totalScore cur partner \<le> 100"
proof -
  have raw: "0 \<le> subjectScore cur partner \<and> subjectScore cur partner \<le> 100 \<and>
      0 \<le> institutionScore cur partner \<and> institutionScore cur partner \<le> 100 \<and>
      0 \<le> locationScore cur partner \<and> locationScore cur partner \<le> 100 \<and>
      0 \<le> totalScore cur partner \<and> totalScore cur partner \<le> 110 \<and>
      totalScore cur partner \<le> 100"
    using subjectScore_nonneg [of cur partner] subjectScore_le [of cur partner]
      totalScore_nonneg [of cur partner] totalScore_le [of cur partner]
    by (simp add: institutionScore_def locationScore_def)
  have rounded: "0 \<le> subject (calculateSmartCompatibility c partner) \<and>
      subject (calculateSmartCompatibility c partner) \<le> 100 \<and>
      0 \<le> institution (calculateSmartCompatibility c partner) \<and>
      institution (calculateSmartCompatibility c partner) \<le> 100 \<and>
      0 \<le> location (calculateSmartCompatibility c partner) \<and>
      location (calculateSmartCompatibility c partner) \<le> 100 \<and>
      0 \<le> total (calculateSmartCompatibility c partner) \<and>
      total (calculateSmartCompatibility c partner) \<le> 110 \<and>
      total (calculateSmartCompatibility c partner) \<le> 100"
  proof (cases c)
    case None
    then show ?thesis by (simp add: calculateSmartCompatibility_def)
  next
    case (Some r)
    have s: "0 \<le> Math_round (subjectScore r partner) \<and> Math_round (subjectScore r partner) \<le> 100"
      by (rule Math_round_range [OF subjectScore_nonneg subjectScore_le])
    have t: "0 \<le> Math_round (totalScore r partner) \<and> Math_round (totalScore r partner) \<le> 100"
      by (rule Math_round_range [OF totalScore_nonneg totalScore_le])
    have i: "0 \<le> Math_round (institutionScore r partner) \<and>
        Math_round (institutionScore r partner) \<le> 100"
      by (simp add: institutionScore_def Math_round_numeral)
    have l: "0 \<le> Math_round (locationScore r partner) \<and>
        Math_round (locationScore r partner) \<le> 100"
      by (simp add: locationScore_def Math_round_numeral)
    show ?thesis using Some s t i l by (simp add: calculateSmartCompatibility_def)
  qed
  show ?thesis using raw rounded by blast
qed

subsection \<open>C8: adding a matching subject\<close>

lemma cross_le:
  fixes a b c d :: rat
  assumes "a * d \<le> c * b" and "0 < b" and "0 < d"
  shows "a / b \<le> c / d"
  using assms by (simp add: field_simps)

lemma ratio_step:
  fixes c p r :: nat
  assumes "c \<le> p" and "0 < r"
  shows "(of_nat c :: rat) / of_nat (max (if p = 0 then 1 else p) r)
      \<le> of_nat (Suc c) / of_nat (max (Suc p) r)"
proof -
  let ?m = "max (if p = 0 then 1 else p) r"
  let ?m' = "max (Suc p) r"
  have pos: "0 < ?m" "0 < ?m'" using assms(2) by auto
  have "c * ?m' \<le> Suc c * ?m"
  proof (cases "Suc p \<le> r")
    case True
    then show ?thesis by (simp add: max_def)
  next
    case False
    then have "r \<le> p" by simp
    then have m: "?m = p" "?m' = Suc p" using assms(2) by (auto simp: max_def)
    have "c * Suc p \<le> Suc c * p" using assms(1) by simp
    then show ?thesis by (simp only: m)
  qed
  then have "(of_nat (c * ?m') :: rat) \<le> of_nat (Suc c * ?m)"
    by (simp only: of_nat_le_iff)
  then have "(of_nat c :: rat) * of_nat ?m' \<le> of_nat (Suc c) * of_nat ?m"
    by (simp only: of_nat_mult)
  moreover have "(0::rat) < of_nat ?m" "(0::rat) < of_nat ?m'"
    using pos by (simp_all only: of_nat_0_less_iff)
  ultimately show ?thesis
    by (rule cross_le)
qed

text \<open>
  C8: let the requester have a subject \<open>u\<close> and let \<open>s\<close> overlap \<open>u\<close> (one contains the other
  after lower-casing). Inserting \<open>s\<close> anywhere into the candidate's subject list (an absent
  list counting as empty), every other field unchanged, does not decrease the subject score,
  neither the unrounded one nor the rounded one that the scorer returns.
\<close>

theorem C8_subject_monotone:
  assumes "subjects cur = Some us" and "u \<in> set us" and "subjectsOverlap u s"
    and "(case subjects partner of None \<Rightarrow> [] | Some l \<Rightarrow> l) = xs @ ys"
  shows "subjectScore cur partner \<le> subjectScore cur (partner\<lparr>subjects := Some (xs @ s # ys)\<rparr>) \<and>
    subject (calculateSmartCompatibility (Some cur) partner) \<le>
    subject (calculateSmartCompatibility (Some cur) (partner\<lparr>subjects := Some (xs @ s # ys)\<rparr>))"
proof -
  let ?P = "someOverlap (subjects cur)"
  let ?partner' = "partner\<lparr>subjects := Some (xs @ s # ys)\<rparr>"
  let ?c = "length (filter ?P (xs @ ys))"
  let ?p = "length (xs @ ys)"
  let ?r = "lengthOr1 (subjects cur)"
  have Ps: "?P s"
    using assms(1-3) by (auto simp: someOverlap_def list_ex_iff)
  have common: "commonSubjects cur partner = filter ?P (xs @ ys)"
    using assms(4) by (cases "subjects partner") (simp_all add: commonSubjects_def)
  have common': "length (commonSubjects cur ?partner') = Suc ?c"
    using Ps by (simp add: commonSubjects_def)
  have len: "lengthOr1 (subjects partner) = (if ?p = 0 then 1 else ?p)"
    using assms(4) by (cases "subjects partner") (simp_all add: lengthOr1_def)
  have len': "lengthOr1 (subjects ?partner') = Suc ?p"
    by (simp add: lengthOr1_def)
  have cur': "subjects cur = subjects cur" ..
  have "(of_nat ?c :: rat) / of_nat (max (if ?p = 0 then 1 else ?p) ?r)
      \<le> of_nat (Suc ?c) / of_nat (max (Suc ?p) ?r)"
    by (rule ratio_step [OF length_filter_le lengthOr1_pos])
  then have "(of_nat ?c :: rat) / of_nat (max (if ?p = 0 then 1 else ?p) ?r) * 100
      \<le> of_nat (Suc ?c) / of_nat (max (Suc ?p) ?r) * 100"
    by (rule mult_right_mono) simp
  then have raw: "subjectScore cur partner \<le> subjectScore cur ?partner'"
    unfolding subjectScore_def common common' len len' .
  have "Math_round (subjectScore cur partner) \<le> Math_round (subjectScore cur ?partner')"
    by (rule Math_round_mono [OF raw])
  then show ?thesis using raw by (simp add: calculateSmartCompatibility_def)
qed

theorem C8_subject_monotone_witness:
  "subjects scenarioRequester = Some [''Calculus'', ''Physics''] \<and>
   subjectsOverlap ''Physics'' ''physics lab'' \<and>
   subjects chemistryCandidate = Some [''Chemistry''] \<and>
   subjectScore scenarioRequester chemistryCandidate
     \<le> subjectScore scenarioRequester
          (chemistryCandidate\<lparr>subjects := Some [''Chemistry'', ''physics lab'']\<rparr>) \<and>
   subject (calculateSmartCompatibility (Some scenarioRequester) chemistryCandidate)
     \<le> subject (calculateSmartCompatibility (Some scenarioRequester)
          (chemistryCandidate\<lparr>subjects := Some [''Chemistry'', ''physics lab'']\<rparr>))"
proof -
  have a: "subjects scenarioRequester = Some [''Calculus'', ''Physics'']"
    by (simp add: scenarioRequester_def scenarioData_def withId_sel)
  have b: "''Physics'' \<in> set [''Calculus'', ''Physics'']" by simp
  have c: "subjectsOverlap ''Physics'' ''physics lab''"
    by (simp add: subjectsOverlap_def toLowerCase_def toLowerChar_def char_of_eq_iff)
  have d: "subjects chemistryCandidate = Some [''Chemistry'']"
    by (simp add: chemistryCandidate_def scenarioData_def withId_sel)
  have e: "(case subjects chemistryCandidate of None \<Rightarrow> [] | Some l \<Rightarrow> l) = [''Chemistry''] @ []"
    by (simp add: d)
  show ?thesis
    using C8_subject_monotone [OF a b c e] a c d by simp
qed

subsection \<open>C2: absent and empty fields\<close>

text \<open>
  C2 states that the scorer never fails and that each absent or empty field contributes zero
  to its sub-score. The scorer has no failing branch, but it compares institution, city and
  country with \<^verbatim>\<open>===\<close> and has no branch for an absent value: two profiles that both lack
  these fields score 100 for institution and 100 for location, and a candidate that lacks
  them against the scenario's requester scores 60 and 30.
\<close>

theorem C2_absent_fields_counterexample:
  "\<not> (institution (calculateSmartCompatibility (Some emptyRequester) emptyCandidate) = 0 \<and>
      location (calculateSmartCompatibility (Some emptyRequester) emptyCandidate) = 0) \<and>
   university emptyCandidate = None \<and> city emptyCandidate = None \<and>
   country emptyCandidate = None \<and>
   institution (calculateSmartCompatibility (Some emptyRequester) emptyCandidate) = 100 \<and>
   location (calculateSmartCompatibility (Some emptyRequester) emptyCandidate) = 100 \<and>
   institution (calculateSmartCompatibility (Some scenarioRequester) emptyCandidate) = 60 \<and>
   location (calculateSmartCompatibility (Some scenarioRequester) emptyCandidate) = 30"
  by (simp add: calculateSmartCompatibility_def institutionScore_def locationScore_def
      emptyRequester_def emptyCandidate_def emptyData_def scenarioRequester_def
      scenarioData_def withId_sel Math_round_numeral)

text \<open>
  C2 as amended: the scorer returns a breakdown for every requester, present or absent, and
  every candidate. An absent requester gives four zeros. For a present requester, a subject
  list that is absent or empty on either side gives subject score 0, and a year that is
  absent on either side gives year bonus 0. An absent institution, city or country does not
  give a zero sub-score: the institution score is always 60 or 100 and the location score
  always 30, 70 or 100, and a field that only one of the two profiles has counts as a
  mismatch (institution score 60; location score 30 when this holds of city and country).
\<close>

theorem C2_absent_fields_amended:
  "calculateSmartCompatibility None partner =
     \<lparr>total = 0, subject = 0, institution = 0, location = 0\<rparr> \<and>
   (subjects partner = None \<or> subjects partner = Some [] \<or>
    subjects cur = None \<or> subjects cur = Some [] \<longrightarrow>
      subjectScore cur partner = 0 \<and>
      subject (calculateSmartCompatibility (Some cur) partner) = 0) \<and>
   (yearOfStudy partner = None \<or> yearOfStudy cur = None \<longrightarrow> yearBonus cur partner = 0) \<and>
   institution (calculateSmartCompatibility (Some cur) partner) \<in> {60, 100} \<and>
   location (calculateSmartCompatibility (Some cur) partner) \<in> {30, 70, 100} \<and>
   ((university partner = None) \<noteq> (university cur = None) \<longrightarrow>
      institution (calculateSmartCompatibility (Some cur) partner) = 60) \<and>
   ((city partner = None) \<noteq> (city cur = None) \<and>
    (country partner = None) \<noteq> (country cur = None) \<longrightarrow>
      location (calculateSmartCompatibility (Some cur) partner) = 30)"
proof -
  have none: "calculateSmartCompatibility None partner =
      \<lparr>total = 0, subject = 0, institution = 0, location = 0\<rparr>"
    by (simp add: calculateSmartCompatibility_def)
  have common: "subjects partner = None \<or> subjects partner = Some [] \<or>
      subjects cur = None \<or> subjects cur = Some [] \<Longrightarrow> commonSubjects cur partner = []"
    by (auto simp: commonSubjects_def someOverlap_def split: option.splits)
  have subj: "subjects partner = None \<or> subjects partner = Some [] \<or>
      subjects cur = None \<or> subjects cur = Some [] \<longrightarrow>
      subjectScore cur partner = 0 \<and>
      subject (calculateSmartCompatibility (Some cur) partner) = 0"
  proof
    assume a: "subjects partner = None \<or> subjects partner = Some [] \<or>
      subjects cur = None \<or> subjects cur = Some []"
    have "subjectScore cur partner = 0"
      by (simp add: subjectScore_def common [OF a])
    then show "subjectScore cur partner = 0 \<and>
      subject (calculateSmartCompatibility (Some cur) partner) = 0"
      by (simp add: calculateSmartCompatibility_def Math_round_zero)
  qed
  have year: "yearOfStudy partner = None \<or> yearOfStudy cur = None \<longrightarrow> yearBonus cur partner = 0"
    by (auto simp: yearBonus_def split: option.splits)
  have inst: "institution (calculateSmartCompatibility (Some cur) partner) =
      (if university partner = university cur then 100 else 60)"
    by (simp add: calculateSmartCompatibility_def institutionScore_def Math_round_numeral)
  have loc: "location (calculateSmartCompatibility (Some cur) partner) =
      (if city partner = city cur then 100
       else if country partner = country cur then 70 else 30)"
    by (simp add: calculateSmartCompatibility_def locationScore_def Math_round_numeral)
  have inst_range: "institution (calculateSmartCompatibility (Some cur) partner) \<in> {60, 100}"
    by (simp add: inst)
  have loc_range: "location (calculateSmartCompatibility (Some cur) partner) \<in> {30, 70, 100}"
    by (simp add: loc)
  have inst_one: "(university partner = None) \<noteq> (university cur = None) \<longrightarrow>
      institution (calculateSmartCompatibility (Some cur) partner) = 60"
    by (auto simp: inst)
  have loc_one: "(city partner = None) \<noteq> (city cur = None) \<and>
      (country partner = None) \<noteq> (country cur = None) \<longrightarrow>
      location (calculateSmartCompatibility (Some cur) partner) = 30"
    by (auto simp: loc)
  show ?thesis using none subj year inst_range loc_range inst_one loc_one by blast
qed

theorem C2_absent_fields_witness:
  "subjects emptyCandidate = None \<and> yearOfStudy emptyCandidate = None \<and>
   university emptyCandidate = None \<and> university scenarioRequester = Some ''A'' \<and>
   city emptyCandidate = None \<and> city scenarioRequester = Some ''X'' \<and>
   country emptyCandidate = None \<and> country scenarioRequester = Some ''C1'' \<and>
   subjectScore scenarioRequester emptyCandidate = 0 \<and>
   subject (calculateSmartCompatibility (Some scenarioRequester) emptyCandidate) = 0 \<and>
   yearBonus scenarioRequester emptyCandidate = 0 \<and>
   institution (calculateSmartCompatibility (Some scenarioRequester) emptyCandidate) = 60 \<and>
   location (calculateSmartCompatibility (Some scenarioRequester) emptyCandidate) = 30"
proof -
  have a: "subjects emptyCandidate = None" "yearOfStudy emptyCandidate = None"
    "university emptyCandidate = None" "university scenarioRequester = Some ''A''"
    "city emptyCandidate = None" "city scenarioRequester = Some ''X''"
    "country emptyCandidate = None" "country scenarioRequester = Some ''C1''"
    by (simp_all add: emptyCandidate_def emptyData_def scenarioRequester_def scenarioData_def
        withId_sel)
  show ?thesis
    using C2_absent_fields_amended [of emptyCandidate scenarioRequester] a by simp
qed

subsection \<open>Facts about the ranking\<close>

lemma insort_cmp_key:
  "insort_cmp byCompatibility x ys = insort_key (\<lambda>p. - orZero (smartCompatibility p)) x ys"
  by (induction ys) (simp_all add: byCompatibility_def)

lemma sort_cmp_key:
  "sort_cmp byCompatibility xs = sort_key (\<lambda>p. - orZero (smartCompatibility p)) xs"
  by (induction xs) (simp_all add: sort_cmp_def insort_cmp_key)

lemma withScores_id: "id_field (withScores c p) = id_field p"
  by (simp add: withScores_def Let_def)

lemma withScores_compat:
  "smartCompatibility (withScores c p) = Some (total (calculateSmartCompatibility c p))"
  by (simp add: withScores_def Let_def)

lemma fetch_keys:
  assumes "p \<in> set (fetchPotentialPartners (Some cur) snapshot)"
  shows "\<exists>children key user. snapshot = Some children \<and> (key, user) \<in> set children \<and>
    key \<noteq> id_field cur \<and> p = withId key user"
  using assms by (auto simp: fetchPotentialPartners_def split: option.splits)

lemma length_smartMatches: "length (smartMatches c ps) = min 6 (length ps)"
  by (simp add: smartMatches_def sort_cmp_key min.commute)

lemma length_fetch:
  "studyField cur = Some field \<Longrightarrow>
     length (fetchPotentialPartners (Some cur) (Some children)) =
     length (filter (\<lambda>(key, user). key \<noteq> id_field cur) children)"
  by (simp add: fetchPotentialPartners_def)

text \<open>A requester without a study field gets no matches: the query cannot be built.\<close>

lemma no_matches_without_studyField:
  assumes "currentUserProfile st = Some cur" and "studyField cur = None"
  shows "matchedPartners (startRadarScan st snapshot) = []"
  using assms
  by (simp add: startRadarScan_def fetchPotentialPartners_def smartMatches_def sort_cmp_def)

lemma set_smartMatches: "set (smartMatches c ps) \<subseteq> withScores c ` set ps"
proof -
  have "set (smartMatches c ps) \<subseteq> set (sort_cmp byCompatibility (map (withScores c) ps))"
    unfolding smartMatches_def by (rule set_take_subset)
  then show ?thesis by (simp add: sort_cmp_key)
qed

lemma prefix_filter_take: "prefix (filter P (take n xs)) (filter P xs)"
proof -
  have "filter P xs = filter P (take n xs) @ filter P (drop n xs)"
    by (simp only: filter_append [symmetric] append_take_drop_id)
  then show ?thesis by (simp add: prefix_def)
qed

lemma scenario_scores:
  "total (calculateSmartCompatibility (Some scenarioRequester)
     (withId ''d'' (scenarioData [''Chemistry'']))) = 60"
  "total (calculateSmartCompatibility (Some scenarioRequester)
     (withId ''c'' (scenarioData [''Calculus II'']))) = 80"
  "total (calculateSmartCompatibility (Some scenarioRequester)
     (withId ''e'' (scenarioData [''Physics'']))) = 80"
  by (simp_all add: calculateSmartCompatibility_def totalScore_def subjectScore_def
      commonSubjects_def someOverlap_def subjectsOverlap_def toLowerCase_def toLowerChar_def
      char_of_eq_iff lengthOr1_def institutionScore_def locationScore_def yearBonus_def
      scenarioRequester_def scenarioData_def withId_sel Math_round_numeral)

lemma scenarioData_stored_id: "stored_id (scenarioData subjs) = None"
  by (simp add: scenarioData_def)

lemma scenario_studyField: "studyField scenarioRequester = Some ''Mathematics''"
  by (simp add: scenarioRequester_def scenarioData_def withId_sel)

lemma scenario_id: "id_field scenarioRequester = ''r''"
  by (simp add: scenarioRequester_def scenarioData_def withId_sel)

lemma scenario_fetch:
  "fetchPotentialPartners (Some scenarioRequester) (Some scenarioPool) =
     [withId ''c'' (scenarioData [''Calculus II'']),
      withId ''d'' (scenarioData [''Chemistry'']),
      withId ''e'' (scenarioData [''Physics''])]"
  by (simp add: fetchPotentialPartners_def scenario_studyField scenario_id scenarioPool_def)

lemma scenario_ranking:
  "map id_field (matchedPartners (startRadarScan scenarioState (Some scenarioPool))) =
     [''c'', ''e'', ''d'']"
  by (simp add: startRadarScan_def scenarioState_def smartMatches_def scenario_fetch
      sort_cmp_def byCompatibility_def withScores_compat orZero_def scenario_scores
      withScores_id withId_sel scenarioData_stored_id)

lemma override_fetch:
  "fetchPotentialPartners (Some scenarioRequester) (Some overridePool) =
     [withId ''x'' ((scenarioData [''Physics''])\<lparr>stored_id := Some ''r''\<rparr>)]"
  by (simp add: fetchPotentialPartners_def scenario_studyField scenario_id overridePool_def)

text \<open>
  What the test of the key gives: a scan never returns the child stored under the
  requester's identifier, and when no stored value of the pool has an \<^verbatim>\<open>id\<close> property of
  its own, no match carries the requester's identifier.
\<close>

lemma matches_not_under_requester_key:
  assumes "currentUserProfile st = Some cur"
    and "m \<in> set (matchedPartners (startRadarScan st snapshot))"
  shows "\<exists>children key user. snapshot = Some children \<and> (key, user) \<in> set children \<and>
    key \<noteq> id_field cur \<and> m = withScores (Some cur) (withId key user)"
proof -
  from assms have "m \<in> set (smartMatches (Some cur) (fetchPotentialPartners (Some cur) snapshot))"
    by (simp add: startRadarScan_def)
  with set_smartMatches obtain p
    where p: "p \<in> set (fetchPotentialPartners (Some cur) snapshot)"
      and m: "m = withScores (Some cur) p"
    by blast
  from fetch_keys [OF p] m show ?thesis by blast
qed

lemma self_exclusion_without_stored_id:
  assumes "currentUserProfile st = Some cur"
    and "m \<in> set (matchedPartners (startRadarScan st (Some children)))"
    and "\<forall>(key, user) \<in> set children. stored_id user = None"
  shows "id_field m \<noteq> id_field cur"
proof -
  from matches_not_under_requester_key [OF assms(1,2)] obtain key user
    where k: "(key, user) \<in> set children" "key \<noteq> id_field cur"
      and m: "m = withScores (Some cur) (withId key user)"
    by auto
  from k(1) assms(3) have "stored_id user = None" by auto
  then show ?thesis using k(2) by (simp add: m withScores_id withId_sel)
qed

subsection \<open>C4: the requester among the matches\<close>

text \<open>
  C4 states that no match of a scan carries the requester's identifier, whatever the pool
  holds. The code means to do this: under the comment \<^verbatim>\<open>Exclude current user\<close> it tests the
  key of every child against the requester's identifier. But it then builds the match as
  \<^verbatim>\<open>{ id: childSnapshot.key, ...user }\<close>, where an \<^verbatim>\<open>id\<close> property of the stored value
  replaces the key that was tested. For the requester \<open>r\<close> and a pool with the requester's
  own record and a record under the key \<open>x\<close> whose stored \<^verbatim>\<open>id\<close> is \<open>r\<close>, the scan drops the
  first and returns the second as a match with the identifier \<open>r\<close>.
\<close>

theorem C4_stored_id_replaces_key:
  "currentUserProfile scenarioState = Some scenarioRequester \<and>
   id_field scenarioRequester = ''r'' \<and>
   map fst overridePool = [''r'', ''x''] \<and>
   map (\<lambda>(key, user). stored_id user) overridePool = [None, Some ''r''] \<and>
   map id_field (matchedPartners (startRadarScan scenarioState (Some overridePool))) = [''r'']"
proof -
  have "map id_field (matchedPartners (startRadarScan scenarioState (Some overridePool))) =
      [''r'']"
    by (simp add: startRadarScan_def scenarioState_def smartMatches_def override_fetch
        sort_cmp_def withScores_id withId_sel)
  moreover have "map fst overridePool = [''r'', ''x'']"
    by (simp add: overridePool_def)
  moreover have "map (\<lambda>(key, user). stored_id user) overridePool = [None, Some ''r'']"
    by (simp add: overridePool_def scenarioData_def)
  ultimately show ?thesis by (simp add: scenarioState_def scenario_id)
qed

subsection \<open>C5: the number of matches\<close>

text \<open>
  C5 states that the ranked list has \<open>min limit n\<close> entries, \<open>n\<close> the size of the pool without
  the requester, for a limit that the caller passes. The scan takes no limit: it cuts the
  list with \<^verbatim>\<open>slice(0, 6)\<close>. For a requester with a study field, a pool of that field with
  the requester's own record and seven candidates, and the limit 7, the claim asks for
  seven matches, and the scan returns six.
\<close>

theorem C5_limit_counterexample:
  "studyField scenarioRequester = Some ''Mathematics'' \<and>
   map (\<lambda>(key, user). studyField user) sevenPool = replicate 8 (Some ''Mathematics'') \<and>
   map fst sevenPool = [''r'', ''u1'', ''u2'', ''u3'', ''u4'', ''u5'', ''u6'', ''u7''] \<and>
   length (filter (\<lambda>(key, user). key \<noteq> id_field scenarioRequester) sevenPool) = 7 \<and>
   length (matchedPartners (startRadarScan scenarioState (Some sevenPool))) = 6 \<and>
   length (matchedPartners (startRadarScan scenarioState (Some sevenPool))) \<noteq>
     min 7 (length (filter (\<lambda>(key, user). key \<noteq> id_field scenarioRequester) sevenPool))"
proof -
  have f: "map (\<lambda>(key, user). studyField user) sevenPool = replicate 8 (Some ''Mathematics'')"
    by (simp add: sevenPool_def scenarioData_def numeral_eq_Suc)
  have k: "map fst sevenPool = [''r'', ''u1'', ''u2'', ''u3'', ''u4'', ''u5'', ''u6'', ''u7'']"
    by (simp add: sevenPool_def)
  have n: "length (filter (\<lambda>(key, user). key \<noteq> id_field scenarioRequester) sevenPool) = 7"
    by (simp add: sevenPool_def scenario_id)
  have "length (matchedPartners (startRadarScan scenarioState (Some sevenPool))) =
      min 6 (length (filter (\<lambda>(key, user). key \<noteq> id_field scenarioRequester) sevenPool))"
    by (simp add: startRadarScan_def scenarioState_def length_smartMatches
        length_fetch [OF scenario_studyField])
  then show ?thesis using f k by (simp add: n scenario_studyField)
qed

text \<open>
  C5 as amended: for every requester that has a study field and every candidate pool that
  the query returns, the list of matches that a scan stores has \<open>min 6 n\<close> entries, \<open>n\<close> the
  size of the pool without the child stored under the requester's identifier; the summary
  list shows the first four of them, \<open>min 4 n\<close> entries. The bounds 6 and 4 are constants of
  the code, not parameters.
\<close>

theorem C5_bounded_output:
  assumes "currentUserProfile st = Some cur" and "studyField cur = Some field"
  shows "length (matchedPartners (startRadarScan st (Some children))) =
      min 6 (length (filter (\<lambda>(key, user). key \<noteq> id_field cur) children)) \<and>
    length (summaryMatches (startRadarScan st (Some children))) =
      min 4 (length (filter (\<lambda>(key, user). key \<noteq> id_field cur) children))"
  using assms
  by (simp add: startRadarScan_def summaryMatches_def length_smartMatches length_fetch)

theorem C5_bounded_output_witness:
  "currentUserProfile scenarioState = Some scenarioRequester \<and>
   studyField scenarioRequester = Some ''Mathematics'' \<and>
   length (filter (\<lambda>(key, user). key \<noteq> id_field scenarioRequester) sevenPool) = 7 \<and>
   length (matchedPartners (startRadarScan scenarioState (Some sevenPool))) = 6 \<and>
   length (summaryMatches (startRadarScan scenarioState (Some sevenPool))) = 4 \<and>
   length (filter (\<lambda>(key, user). key \<noteq> id_field scenarioRequester) scenarioPool) = 3 \<and>
   length (matchedPartners (startRadarScan scenarioState (Some scenarioPool))) = 3 \<and>
   length (summaryMatches (startRadarScan scenarioState (Some scenarioPool))) = 3"
proof -
  have a: "currentUserProfile scenarioState = Some scenarioRequester"
    by (simp add: scenarioState_def)
  have n7: "length (filter (\<lambda>(key, user). key \<noteq> id_field scenarioRequester) sevenPool) = 7"
    by (simp add: sevenPool_def scenario_id)
  have n3: "length (filter (\<lambda>(key, user). key \<noteq> id_field scenarioRequester) scenarioPool) = 3"
    by (simp add: scenarioPool_def scenario_id)
  show ?thesis
    using C5_bounded_output [OF a scenario_studyField, of sevenPool]
      C5_bounded_output [OF a scenario_studyField, of scenarioPool] a
    by (simp add: n7 n3 scenario_studyField)
qed

subsection \<open>C6: order of the matches\<close>

text \<open>
  C6: the matches of a scan are in descending order of their total, and for every total
  \<open>t\<close> the matches with total \<open>t\<close> are, in this order, the first of the candidates with
  total \<open>t\<close> in the order of the pool: candidates of equal total keep their relative order.
\<close>

theorem C6_sorted_stable:
  assumes "currentUserProfile st = Some cur"
  shows "sorted_wrt (\<lambda>a b. orZero (smartCompatibility a) \<ge> orZero (smartCompatibility b))
      (matchedPartners (startRadarScan st snapshot)) \<and>
    prefix
      (filter (\<lambda>m. smartCompatibility m = Some t) (matchedPartners (startRadarScan st snapshot)))
      (map (withScores (Some cur))
        (filter (\<lambda>p. total (calculateSmartCompatibility (Some cur) p) = t)
          (fetchPotentialPartners (Some cur) snapshot)))"
proof -
  let ?k = "\<lambda>p. - orZero (smartCompatibility p)"
  let ?scored = "map (withScores (Some cur)) (fetchPotentialPartners (Some cur) snapshot)"
  let ?sorted = "sort_key ?k ?scored"
  have ms: "matchedPartners (startRadarScan st snapshot) = take 6 ?sorted"
    using assms by (simp add: startRadarScan_def smartMatches_def sort_cmp_key)
  have "sorted (map ?k (take 6 ?sorted))"
    unfolding take_map [symmetric] by (rule sorted_wrt_take) (rule sorted_sort_key)
  then have ord: "sorted_wrt (\<lambda>a b. orZero (smartCompatibility a) \<ge> orZero (smartCompatibility b))
      (take 6 ?sorted)"
    by (simp add: sorted_wrt_map)
  have key: "(\<lambda>m. smartCompatibility m = Some t) x \<longleftrightarrow> ?k x = - t"
    if "x \<in> set ?scored" for x
    using that by (auto simp: withScores_compat orZero_def)
  have "filter (\<lambda>m. smartCompatibility m = Some t) ?sorted = filter (\<lambda>m. ?k m = - t) ?sorted"
    by (rule filter_cong) (use key in auto)
  also have "\<dots> = filter (\<lambda>m. ?k m = - t) ?scored"
    by (rule sort_key_stable)
  also have "\<dots> = filter (\<lambda>m. smartCompatibility m = Some t) ?scored"
    by (rule filter_cong) (use key in auto)
  also have "\<dots> = map (withScores (Some cur))
      (filter (\<lambda>p. total (calculateSmartCompatibility (Some cur) p) = t)
        (fetchPotentialPartners (Some cur) snapshot))"
    by (simp add: filter_map comp_def withScores_compat)
  finally have st: "filter (\<lambda>m. smartCompatibility m = Some t) ?sorted =
      map (withScores (Some cur))
        (filter (\<lambda>p. total (calculateSmartCompatibility (Some cur) p) = t)
          (fetchPotentialPartners (Some cur) snapshot))" .
  have "prefix (filter (\<lambda>m. smartCompatibility m = Some t) (take 6 ?sorted))
      (filter (\<lambda>m. smartCompatibility m = Some t) ?sorted)"
    by (rule prefix_filter_take)
  then show ?thesis using ord by (simp add: ms st)
qed

theorem C6_sorted_stable_witness:
  "map id_field (matchedPartners (startRadarScan scenarioState (Some scenarioPool))) =
     [''c'', ''e'', ''d''] \<and>
   sorted_wrt (\<lambda>a b. orZero (smartCompatibility a) \<ge> orZero (smartCompatibility b))
     (matchedPartners (startRadarScan scenarioState (Some scenarioPool))) \<and>
   prefix
     (filter (\<lambda>m. smartCompatibility m = Some 80)
       (matchedPartners (startRadarScan scenarioState (Some scenarioPool))))
     (map (withScores (Some scenarioRequester))
       [withId ''c'' (scenarioData [''Calculus II'']), withId ''e'' (scenarioData [''Physics''])])"
proof -
  have a: "currentUserProfile scenarioState = Some scenarioRequester"
    by (simp add: scenarioState_def)
  have b: "filter (\<lambda>p. total (calculateSmartCompatibility (Some scenarioRequester) p) = 80)
      (fetchPotentialPartners (Some scenarioRequester) (Some scenarioPool)) =
      [withId ''c'' (scenarioData [''Calculus II'']), withId ''e'' (scenarioData [''Physics''])]"
    by (simp add: scenario_fetch scenario_scores)
  have c: "sorted_wrt (\<lambda>a b. orZero (smartCompatibility a) \<ge> orZero (smartCompatibility b))
      (matchedPartners (startRadarScan scenarioState (Some scenarioPool))) \<and>
    prefix
      (filter (\<lambda>m. smartCompatibility m = Some 80)
        (matchedPartners (startRadarScan scenarioState (Some scenarioPool))))
      (map (withScores (Some scenarioRequester))
        [withId ''c'' (scenarioData [''Calculus II'']), withId ''e'' (scenarioData [''Physics''])])"
    using C6_sorted_stable [OF a, of "Some scenarioPool" 80] by (simp only: b)
  show ?thesis using c scenario_ranking by blast
qed

subsection \<open>C7: rings\<close>

text \<open>
  C7: the ring and the normalized radius of a candidate are functions of the total alone. A
  total of at least 90 gives ring 0 and radius 0.25, a total from 80 to 89 gives ring 1 and
  radius 0.40, a total below 80 gives ring 2 and radius 0.60; the totals 95 and 82 give the
  radii 0.25 and 0.40.
\<close>

theorem C7_ring_assignment:
  "(getCompatibilityRing t = 0 \<longleftrightarrow> 90 \<le> t) \<and>
   (getCompatibilityRing t = 1 \<longleftrightarrow> 80 \<le> t \<and> t \<le> 89) \<and>
   (getCompatibilityRing t = 2 \<longleftrightarrow> t < 80) \<and>
   ringRadius (getCompatibilityRing t) =
     (if 90 \<le> t then 25 / 100 else if 80 \<le> t then 40 / 100 else 60 / 100) \<and>
   ringRadius (getCompatibilityRing 95) = 25 / 100 \<and>
   ringRadius (getCompatibilityRing 82) = 40 / 100 \<and>
   pos_x (initialPosition cx cy n i partner) =
     cx + ringRadius (getCompatibilityRing (orZero (smartCompatibility partner))) * cx *
       cos (real i * 360 / real n * pi / 180) \<and>
   pos_y (initialPosition cx cy n i partner) =
     cy + ringRadius (getCompatibilityRing (orZero (smartCompatibility partner))) * cy *
       sin (real i * 360 / real n * pi / 180)"
  by (simp add: getCompatibilityRing_def ringRadius_def initialPosition_def Let_def)

subsection \<open>Facts about a pass without a collision\<close>












lemma sqrt_36: "sqrt 36 = 6"
  by (rule real_sqrt_unique) simp_all







subsection \<open>C3: the result of the collision avoidance\<close>



subsection \<open>Facts about the repulsion\<close>

lemma sqrt_one_plus_ratio:
  fixes a b :: real
  assumes "a \<noteq> 0"
  shows "sqrt (1 + (b / a)\<^sup>2) = sqrt (a * a + b * b) / \<bar>a\<bar>"
proof -
  have "1 + (b / a)\<^sup>2 = (a * a + b * b) / (\<bar>a\<bar> * \<bar>a\<bar>)"
    using assms by (simp add: power2_eq_square field_simps)
  then have "sqrt (1 + (b / a)\<^sup>2) = sqrt ((a * a + b * b) / (\<bar>a\<bar> * \<bar>a\<bar>))"
    by simp
  also have "\<dots> = sqrt (a * a + b * b) / sqrt (\<bar>a\<bar> * \<bar>a\<bar>)"
    by (rule real_sqrt_divide)
  also have "sqrt (\<bar>a\<bar> * \<bar>a\<bar>) = \<bar>a\<bar>" by simp
  finally show ?thesis .
qed

lemma atan2_cos_sin:
  fixes a b :: real
  assumes "0 < sqrt (a * a + b * b)"
  shows "cos (Math_atan2 b a) = a / sqrt (a * a + b * b) \<and>
    sin (Math_atan2 b a) = b / sqrt (a * a + b * b)"
proof -
  let ?d = "sqrt (a * a + b * b)"
  have arct: "cos (arctan (b / a)) = \<bar>a\<bar> / ?d \<and> sin (arctan (b / a)) = (b / a) * (\<bar>a\<bar> / ?d)"
    if "a \<noteq> 0"
    using that by (simp add: cos_arctan sin_arctan sqrt_one_plus_ratio)
  consider "0 < a" | "a < 0" | "a = 0" by linarith
  then show ?thesis
  proof cases
    case 1
    then show ?thesis using arct by (simp add: Math_atan2_def)
  next
    case 2
    then show ?thesis using arct by (simp add: Math_atan2_def)
  next
    case 3
    with assms have "b \<noteq> 0" by auto
    with 3 show ?thesis by (auto simp: Math_atan2_def)
  qed
qed

lemma atan2_origin: "Math_atan2 0 0 = 0"
  by (simp add: Math_atan2_def)

lemma sum_squares_sqrt:
  fixes a b :: real
  shows "sqrt (a * a + b * b) * sqrt (a * a + b * b) = a * a + b * b"
  by simp

lemma push_apart_distance:
  fixes a b c s d f M :: real
  assumes d: "d = sqrt (a * a + b * b)" and f: "f = (M - d) / 2" and dM: "d < M"
    and dir: "(0 < d \<and> c = a / d \<and> s = b / d) \<or> (d = 0 \<and> c = 1 \<and> s = 0)"
  shows "sqrt ((a + c * f + c * f) * (a + c * f + c * f) +
      (b + s * f + s * f) * (b + s * f + s * f)) = M"
proof -
  have d0: "0 \<le> d" using d by simp
  have dd: "d * d = a * a + b * b" using d sum_squares_sqrt [of a b] by simp
  have M0: "0 \<le> M" using d0 dM by simp
  have "(a + c * f + c * f) * (a + c * f + c * f) +
      (b + s * f + s * f) * (b + s * f + s * f) = M\<^sup>2"
  proof (cases "0 < d")
    case True
    with dir have c: "c = a / d" and s: "s = b / d" by auto
    define r where "r = M / d"
    have x: "a + c * f + c * f = a * r"
      using True by (simp add: c f r_def field_simps)
    have y: "b + s * f + s * f = b * r"
      using True by (simp add: s f r_def field_simps)
    have dr: "d * r = M" using True by (simp add: r_def)
    have "a * r * (a * r) + b * r * (b * r) = (a * a + b * b) * (r * r)"
      by (simp add: algebra_simps)
    also have "\<dots> = d * d * (r * r)" by (simp only: dd)
    also have "\<dots> = (d * r) * (d * r)" by (simp add: algebra_simps)
    also have "\<dots> = M\<^sup>2" by (simp add: dr power2_eq_square)
    finally show ?thesis by (simp only: x y)
  next
    case False
    with d0 dir have z: "d = 0" "c = 1" "s = 0" by auto
    from dd z have "a * a + b * b = 0" by simp
    then have "a = 0" "b = 0" by (simp_all add: sum_squares_eq_zero_iff)
    then show ?thesis by (simp add: z f power2_eq_square)
  qed
  then show ?thesis using M0 by (simp only: real_sqrt_abs abs_of_nonneg)
qed

lemma unit_push_length:
  fixes c s f :: real
  assumes "c * c + s * s = 1" and "0 \<le> f"
  shows "sqrt (c * f * (c * f) + s * f * (s * f)) = f"
proof -
  have "c * f * (c * f) + s * f * (s * f) = (c * c + s * s) * (f * f)"
    by (simp add: algebra_simps)
  then show ?thesis using assms by simp
qed

lemma repel_collision:
  assumes "j < length ps" and "k < length ps" and "j \<noteq> k"
    and "distance (ps ! j) (ps ! k) < MARGIN"
  shows "snd (repel j k (ps, hc)) \<and>
    length (fst (repel j k (ps, hc))) = length ps \<and>
    pos_x (fst (repel j k (ps, hc)) ! j) =
      pos_x (ps ! j) +
      cos (Math_atan2 (pos_y (ps ! j) - pos_y (ps ! k)) (pos_x (ps ! j) - pos_x (ps ! k))) *
        ((MARGIN - distance (ps ! j) (ps ! k)) / 2) \<and>
    pos_y (fst (repel j k (ps, hc)) ! j) =
      pos_y (ps ! j) +
      sin (Math_atan2 (pos_y (ps ! j) - pos_y (ps ! k)) (pos_x (ps ! j) - pos_x (ps ! k))) *
        ((MARGIN - distance (ps ! j) (ps ! k)) / 2) \<and>
    pos_x (fst (repel j k (ps, hc)) ! k) =
      pos_x (ps ! k) -
      cos (Math_atan2 (pos_y (ps ! j) - pos_y (ps ! k)) (pos_x (ps ! j) - pos_x (ps ! k))) *
        ((MARGIN - distance (ps ! j) (ps ! k)) / 2) \<and>
    pos_y (fst (repel j k (ps, hc)) ! k) =
      pos_y (ps ! k) -
      sin (Math_atan2 (pos_y (ps ! j) - pos_y (ps ! k)) (pos_x (ps ! j) - pos_x (ps ! k))) *
        ((MARGIN - distance (ps ! j) (ps ! k)) / 2)"
  using assms by (simp add: repel_def distance_def Let_def)

lemma map_id_update:
  assumes "pos_id p = pos_id (xs ! i)"
  shows "map pos_id (xs[i := p]) = map pos_id xs"
proof (cases "i < length xs")
  case True
  have "(map pos_id xs)[i := map pos_id xs ! i] = map pos_id xs"
    by (rule list_update_id)
  then show ?thesis using True assms by (simp add: map_update)
next
  case False
  then have "xs[i := p] = xs" by (simp add: list_update_beyond)
  then show ?thesis by simp
qed

lemma repel_ids: "map pos_id (fst (repel j k st)) = map pos_id (fst st)"
proof -
  define positions where "positions = fst st"
  define dx where "dx = pos_x (positions ! j) - pos_x (positions ! k)"
  define dy where "dy = pos_y (positions ! j) - pos_y (positions ! k)"
  define dist where "dist = sqrt (dx * dx + dy * dy)"
  define angle where "angle = Math_atan2 dy dx"
  define force where "force = (MARGIN - dist) / 2"
  define p1 where
    "p1 = positions[j := (positions ! j)\<lparr>pos_x := pos_x (positions ! j) + cos angle * force\<rparr>]"
  define p2 where "p2 = p1[j := (p1 ! j)\<lparr>pos_y := pos_y (p1 ! j) + sin angle * force\<rparr>]"
  define p3 where "p3 = p2[k := (p2 ! k)\<lparr>pos_x := pos_x (p2 ! k) - cos angle * force\<rparr>]"
  define p4 where "p4 = p3[k := (p3 ! k)\<lparr>pos_y := pos_y (p3 ! k) - sin angle * force\<rparr>]"
  have "map pos_id p1 = map pos_id positions"
    unfolding p1_def by (rule map_id_update) simp
  moreover have "map pos_id p2 = map pos_id p1"
    unfolding p2_def by (rule map_id_update) simp
  moreover have "map pos_id p3 = map pos_id p2"
    unfolding p3_def by (rule map_id_update) simp
  moreover have "map pos_id p4 = map pos_id p3"
    unfolding p4_def by (rule map_id_update) simp
  ultimately have ids: "map pos_id p4 = map pos_id positions" by simp
  have "repel j k st = (if dist < MARGIN then (p4, True) else st)"
    by (simp only: repel_def Let_def positions_def dx_def dy_def dist_def angle_def force_def
        p1_def p2_def p3_def p4_def)
  then show ?thesis using ids by (simp add: positions_def)
qed

lemma repel_other:
  "i \<noteq> j \<Longrightarrow> i \<noteq> k \<Longrightarrow> fst (repel j k st) ! i = fst st ! i"
  by (simp add: repel_def Let_def)

lemma fold_repel_ids: "map pos_id (fst (fold (repel j) ks st)) = map pos_id (fst st)"
  by (induction ks arbitrary: st) (simp_all add: repel_ids)

lemma innerLoop_ids: "map pos_id (fst (innerLoop j st)) = map pos_id (fst st)"
  by (simp add: innerLoop_def fold_repel_ids)

lemma fold_innerLoop_ids: "map pos_id (fst (fold innerLoop js st)) = map pos_id (fst st)"
  by (induction js arbitrary: st) (simp_all add: innerLoop_ids)

lemma pass_ids: "map pos_id (fst (pass positions)) = map pos_id positions"
  by (simp add: pass_def fold_innerLoop_ids)

lemma pass_length: "length (fst (pass positions)) = length positions"
  using arg_cong [OF pass_ids [of positions], of length] by simp

lemma distance_nonneg: "0 \<le> distance p q"
  by (simp add: distance_def Let_def)

subsection \<open>One repulsion in exact arithmetic\<close>

text \<open>
  In exact arithmetic, with the mathematical square root, arc tangent, cosine and sine: let
  the entries \<open>j\<close> and \<open>k\<close> of the array be at distance \<open>d\<close> below \<open>MARGIN\<close>. The repulsion
  step sets the collision flag and moves the two entries by the same vector in opposite
  directions: their midpoint stays, each moves by \<open>(MARGIN - d) / 2\<close>, and afterwards they are
  at distance \<open>MARGIN\<close>. For \<open>d > 0\<close> entry \<open>j\<close> moves along the unit vector from \<open>k\<close> to \<open>j\<close>;
  for \<open>d = 0\<close> it moves along the x axis. This is the geometry that the code approximates;
  the code itself computes in doubles, see the last section.
\<close>

lemma repel_exact_arithmetic:
  assumes "j < length positions" and "k < length positions" and "j \<noteq> k"
    and "d = distance (positions ! j) (positions ! k)" and "d < MARGIN"
    and "out = fst (repel j k (positions, hasCollision))"
  shows "0 \<le> d \<and> snd (repel j k (positions, hasCollision)) \<and>
    (pos_x (out ! j) + pos_x (out ! k)) / 2 =
      (pos_x (positions ! j) + pos_x (positions ! k)) / 2 \<and>
    (pos_y (out ! j) + pos_y (out ! k)) / 2 =
      (pos_y (positions ! j) + pos_y (positions ! k)) / 2 \<and>
    distance (out ! j) (out ! k) = MARGIN \<and>
    distance (out ! j) (positions ! j) = (MARGIN - d) / 2 \<and>
    distance (out ! k) (positions ! k) = (MARGIN - d) / 2 \<and>
    pos_x (out ! k) - pos_x (positions ! k) = - (pos_x (out ! j) - pos_x (positions ! j)) \<and>
    pos_y (out ! k) - pos_y (positions ! k) = - (pos_y (out ! j) - pos_y (positions ! j)) \<and>
    (0 < d \<longrightarrow>
       pos_x (out ! j) - pos_x (positions ! j) =
         (pos_x (positions ! j) - pos_x (positions ! k)) / d * ((MARGIN - d) / 2) \<and>
       pos_y (out ! j) - pos_y (positions ! j) =
         (pos_y (positions ! j) - pos_y (positions ! k)) / d * ((MARGIN - d) / 2)) \<and>
    (d = 0 \<longrightarrow>
       pos_x (out ! j) - pos_x (positions ! j) = MARGIN / 2 \<and>
       pos_y (out ! j) - pos_y (positions ! j) = 0) \<and>
    (\<forall>i. i \<noteq> j \<and> i \<noteq> k \<longrightarrow> out ! i = positions ! i) \<and>
    map pos_id out = map pos_id positions \<and> length out = length positions \<and>
    map pos_id (fst (pass positions)) = map pos_id positions \<and>
    length (fst (pass positions)) = length positions"
proof -
  let ?a = "pos_x (positions ! j) - pos_x (positions ! k)"
  let ?b = "pos_y (positions ! j) - pos_y (positions ! k)"
  let ?c = "cos (Math_atan2 ?b ?a)"
  let ?s = "sin (Math_atan2 ?b ?a)"
  let ?f = "(MARGIN - d) / 2"
  have d: "d = sqrt (?a * ?a + ?b * ?b)"
    using assms(4) by (simp add: distance_def Let_def)
  have d0: "0 \<le> d" using assms(4) distance_nonneg by simp
  have f0: "0 \<le> ?f" using assms(5) by simp
  have coll: "distance (positions ! j) (positions ! k) < MARGIN"
    using assms(4,5) by simp
  note r = repel_collision [OF assms(1-3) coll, of hasCollision,
      folded assms(4) assms(6)]
  have xj: "pos_x (out ! j) = pos_x (positions ! j) + ?c * ?f"
    and yj: "pos_y (out ! j) = pos_y (positions ! j) + ?s * ?f"
    and xk: "pos_x (out ! k) = pos_x (positions ! k) - ?c * ?f"
    and yk: "pos_y (out ! k) = pos_y (positions ! k) - ?s * ?f"
    and flag: "snd (repel j k (positions, hasCollision))"
    and len: "length out = length positions"
    using r by simp_all
  have dir: "(0 < d \<and> ?c = ?a / d \<and> ?s = ?b / d) \<or> (d = 0 \<and> ?c = 1 \<and> ?s = 0)"
  proof (cases "0 < d")
    case True
    then have "0 < sqrt (?a * ?a + ?b * ?b)" using d by simp
    from atan2_cos_sin [OF this] True d show ?thesis by simp
  next
    case False
    with d0 have z: "d = 0" by simp
    with d have "?a * ?a + ?b * ?b = 0" by simp
    then have "?a = 0" "?b = 0" by (simp_all only: sum_squares_eq_zero_iff)
    then show ?thesis using z by (simp add: atan2_origin)
  qed
  have apart: "distance (out ! j) (out ! k) = MARGIN"
  proof -
    have "sqrt ((?a + ?c * ?f + ?c * ?f) * (?a + ?c * ?f + ?c * ?f) +
        (?b + ?s * ?f + ?s * ?f) * (?b + ?s * ?f + ?s * ?f)) = MARGIN"
      by (rule push_apart_distance [OF d refl assms(5) dir])
    moreover have "pos_x (out ! j) - pos_x (out ! k) = ?a + ?c * ?f + ?c * ?f"
      by (simp add: xj xk)
    moreover have "pos_y (out ! j) - pos_y (out ! k) = ?b + ?s * ?f + ?s * ?f"
      by (simp add: yj yk)
    ultimately show ?thesis by (simp only: distance_def Let_def)
  qed
  have unit: "?c * ?c + ?s * ?s = 1" by simp
  have movedj: "distance (out ! j) (positions ! j) = ?f"
  proof -
    have "sqrt (?c * ?f * (?c * ?f) + ?s * ?f * (?s * ?f)) = ?f"
      by (rule unit_push_length [OF unit f0])
    then show ?thesis by (simp add: distance_def Let_def xj yj)
  qed
  have movedk: "distance (out ! k) (positions ! k) = ?f"
  proof -
    have "sqrt (?c * ?f * (?c * ?f) + ?s * ?f * (?s * ?f)) = ?f"
      by (rule unit_push_length [OF unit f0])
    then show ?thesis by (simp add: distance_def Let_def xk yk)
  qed
  have along: "0 < d \<longrightarrow>
       pos_x (out ! j) - pos_x (positions ! j) = ?a / d * ?f \<and>
       pos_y (out ! j) - pos_y (positions ! j) = ?b / d * ?f"
    using dir by (auto simp: xj yj)
  have origin: "d = 0 \<longrightarrow>
       pos_x (out ! j) - pos_x (positions ! j) = MARGIN / 2 \<and>
       pos_y (out ! j) - pos_y (positions ! j) = 0"
    using dir by (auto simp: xj yj)
  have others: "\<forall>i. i \<noteq> j \<and> i \<noteq> k \<longrightarrow> out ! i = positions ! i"
    using repel_other [of _ j k "(positions, hasCollision)"] assms(6) by simp
  have ids: "map pos_id out = map pos_id positions"
    using repel_ids [of j k "(positions, hasCollision)"] assms(6) by simp
  have mid: "(pos_x (out ! j) + pos_x (out ! k)) / 2 =
      (pos_x (positions ! j) + pos_x (positions ! k)) / 2"
    "(pos_y (out ! j) + pos_y (out ! k)) / 2 =
      (pos_y (positions ! j) + pos_y (positions ! k)) / 2"
    by (simp_all add: xj xk yj yk)
  have opp: "pos_x (out ! k) - pos_x (positions ! k) = - (pos_x (out ! j) - pos_x (positions ! j))"
    "pos_y (out ! k) - pos_y (positions ! k) = - (pos_y (out ! j) - pos_y (positions ! j))"
    by (simp_all add: xj xk yj yk)
  show ?thesis
    using d0 flag mid apart movedj movedk opp along origin others ids len
      pass_ids [of positions] pass_length [of positions]
    by blast
qed

lemma repel_exact_arithmetic_examples:
  "distance (closePair ! 0) (closePair ! 1) = 6 \<and>
   distance (fst (repel 0 1 (closePair, False)) ! 0) (fst (repel 0 1 (closePair, False)) ! 1) =
     MARGIN \<and>
   pos_x (fst (repel 0 1 (closePair, False)) ! 0) = - 2 \<and>
   pos_x (fst (repel 0 1 (closePair, False)) ! 1) = 8 \<and>
   distance (samePair ! 0) (samePair ! 1) = 0 \<and>
   distance (fst (repel 0 1 (samePair, False)) ! 0) (fst (repel 0 1 (samePair, False)) ! 1) =
     MARGIN \<and>
   pos_x (fst (repel 0 1 (samePair, False)) ! 0) = 8 \<and>
   pos_x (fst (repel 0 1 (samePair, False)) ! 1) = - 2"
proof -
  have neq: "(0::nat) \<noteq> 1" by simp
  have lc: "0 < length closePair" "1 < length closePair" by (simp_all add: closePair_def)
  have dc: "6 = distance (closePair ! 0) (closePair ! 1)"
    by (simp add: closePair_def distance_def sqrt_36)
  have mc: "(6::real) < MARGIN" by (simp add: MARGIN_def)
  have c: "distance (fst (repel 0 1 (closePair, False)) ! 0)
        (fst (repel 0 1 (closePair, False)) ! 1) = MARGIN \<and>
      pos_x (fst (repel 0 1 (closePair, False)) ! 0) = - 2 \<and>
      pos_x (fst (repel 0 1 (closePair, False)) ! 1) = 8"
    using repel_exact_arithmetic [OF lc neq dc mc refl, of False]
    by (simp add: closePair_def MARGIN_def)
  have ls: "0 < length samePair" "1 < length samePair" by (simp_all add: samePair_def)
  have ds: "0 = distance (samePair ! 0) (samePair ! 1)"
    by (simp add: samePair_def distance_def)
  have ms: "(0::real) < MARGIN" by (simp add: MARGIN_def)
  have s: "distance (fst (repel 0 1 (samePair, False)) ! 0)
        (fst (repel 0 1 (samePair, False)) ! 1) = MARGIN \<and>
      pos_x (fst (repel 0 1 (samePair, False)) ! 0) = 8 \<and>
      pos_x (fst (repel 0 1 (samePair, False)) ! 1) = - 2"
    using repel_exact_arithmetic [OF ls neq ds ms refl, of False]
    by (simp add: samePair_def MARGIN_def)
  show ?thesis using c s dc ds by simp
qed

subsection \<open>Facts about double rounding\<close>















subsection \<open>Facts about the repulsion in double arithmetic\<close>

















subsection \<open>C10: one repulsion\<close>




end
